theory Spec2Isabelle
  imports Main
begin

section \<open>Python string primitives used by \<open>lobster/se.py\<close>\<close>

text \<open>
  The module is Python 2 code (\<open>has_key\<close>, a list-returning \<open>map\<close>), so a \<open>str\<close> is a
  byte string: a \<open>char list\<close> here.
\<close>

fun startswith :: "string \<Rightarrow> string \<Rightarrow> bool" where
  "startswith s [] = True"
| "startswith [] (p # ps) = False"
| "startswith (c # cs) (p # ps) = (c = p \<and> startswith cs ps)"

definition endswith :: "string \<Rightarrow> string \<Rightarrow> bool" where
  "endswith s p = startswith (rev s) (rev p)"

text \<open>
  \<open>posixpath.join(a, b)\<close> with one component \<open>b\<close>: an absolute \<open>b\<close> discards \<open>a\<close>; an
  empty \<open>a\<close> or one that ends with a slash is concatenated; otherwise a slash is inserted.
\<close>

definition os_path_join :: "string \<Rightarrow> string \<Rightarrow> string" where
  "os_path_join a b =
     (if startswith b ''/'' then b
      else if a = [] \<or> endswith a ''/'' then a @ b
      else a @ ''/'' @ b)"

text \<open>
  \<open>s.replace(old, '', 1)\<close>: the leftmost occurrence of \<open>old\<close> is deleted, nothing
  happens when there is none. An empty \<open>old\<close> occurs at position 0 and deleting it changes
  nothing.
\<close>

fun replace_first :: "string \<Rightarrow> string \<Rightarrow> string" where
  "replace_first old [] = []"
| "replace_first old (c # cs) =
     (if startswith (c # cs) old then drop (length old) (c # cs)
      else c # replace_first old cs)"

section \<open>\<open>StorageElement\<close>: path translation\<close>

text \<open>
  \<open>StorageElement.lfn2pfn\<close> (se.py:63-66) and the local function \<open>pfn2lfn\<close> of
  \<open>StorageElement.fixresult\<close> (se.py:69-70), as functions of the instance's
  \<open>_pfnprefix\<close>.
\<close>

definition lfn2pfn :: "string \<Rightarrow> string \<Rightarrow> string" where
  "lfn2pfn pfnprefix path =
     (if startswith path ''/'' then os_path_join pfnprefix (tl path)
      else os_path_join pfnprefix path)"

definition pfn2lfn :: "string \<Rightarrow> string \<Rightarrow> string" where
  "pfn2lfn pfnprefix p = replace_first pfnprefix p"

text \<open>The default argument of \<open>Local.__init__\<close> (se.py:98).\<close>

definition Local_default_pfnprefix :: string where
  "Local_default_pfnprefix = ''''"

section \<open>Exceptions and values\<close>

text \<open>
  Every exception the module raises or lets through is a value of \<open>error\<close>; a call that
  may raise returns \<open>error + 'a\<close>, with \<open>Inl\<close> for the exception.
\<close>

datatype error =
    AttributeError string
  | IOError string
  | OSError string
  | KeyError string
  | IndexError string
  | TypeError string
  | NotImplementedError string
  | AuthenticationFailure string

text \<open>
  The values that the storage methods return and that \<open>preprocess\<close> stores: a \<open>str\<close>, a
  list of \<open>str\<close>, a generator (the items it yields, and the exception that ends it
  if one does), a \<open>bool\<close>, an \<open>int\<close>, \<open>None\<close>.
\<close>

datatype pyval =
    PStr string
  | PList "string list"
  | PGen "string list" "error option"
  | PBool bool
  | PInt int
  | PNone

section \<open>\<open>StorageConfiguration\<close>: the URL grammar and site expansion\<close>

definition newline :: char where
  "newline = CHR 0x0A"

definition lower_chars :: string where
  "lower_chars = ''abcdefghijklmnopqrstuvwxyz''"

definition upper_chars :: string where
  "upper_chars = ''ABCDEFGHIJKLMNOPQRSTUVWXYZ''"

definition digit_chars :: string where
  "digit_chars = ''0123456789''"

definition is_lower :: "char \<Rightarrow> bool" where
  "is_lower c = (c \<in> set lower_chars)"

definition not_slash :: "char \<Rightarrow> bool" where
  "not_slash c = (c \<noteq> CHR ''/'')"

definition not_newline :: "char \<Rightarrow> bool" where
  "not_newline c = (c \<noteq> newline)"

text \<open>
  Without \<open>re.MULTILINE\<close>, \<open>$\<close> matches at the end of the string and just before a
  newline that is its last character: \<open>at_dollar rest\<close> says so of the text that is left.
\<close>

definition at_dollar :: "string \<Rightarrow> bool" where
  "at_dollar rest = (rest = [] \<or> rest = [newline])"

text \<open>
  \<open>__url_re = ^([a-z]+)://([^/]*)(.*)/?$\<close> (se.py:252), as \<open>re.match(url).groups()\<close>
  computes it, \<open>None\<close> when there is no match. Each group is greedy and the character
  after it is outside the group's class, so the first group is the longest run of lower
  case letters and the second the longest run without a slash. The third group \<open>(.*)\<close>,
  greedy as well, takes everything up to the first newline, a trailing slash included,
  and leaves \<open>/?\<close> nothing to match.
\<close>

definition url_re_match :: "string \<Rightarrow> (string \<times> string \<times> string) option" where
  "url_re_match url =
     (let protocol = takeWhile is_lower url;
          rest1 = dropWhile is_lower url
      in if protocol = [] \<or> \<not> startswith rest1 ''://'' then None
         else
           let rest2 = drop 3 rest1;
               server = takeWhile not_slash rest2;
               rest3 = dropWhile not_slash rest2;
               path = takeWhile not_newline rest3;
               rest4 = dropWhile not_newline rest3
           in if at_dollar rest4 then Some (protocol, server, path) else None)"

text \<open>
  \<open>__site_re = ^T[0123]_(?:[A-Z]{2}_)?[A-Za-z0-9_\-]+$\<close> (se.py:249), as the truth value
  of \<open>re.match(server)\<close>: with the optional country code, or without it.
\<close>

definition is_site_char :: "char \<Rightarrow> bool" where
  "is_site_char c = (c \<in> set (upper_chars @ lower_chars @ digit_chars @ ''_-''))"

definition site_name :: "string \<Rightarrow> bool" where
  "site_name s = (takeWhile is_site_char s \<noteq> [] \<and> at_dollar (dropWhile is_site_char s))"

fun country_code :: "string \<Rightarrow> bool" where
  "country_code (a # b # c # rest) =
     (a \<in> set upper_chars \<and> b \<in> set upper_chars \<and> c = CHR ''_'' \<and> site_name rest)"
| "country_code _ = False"

fun site_re_match :: "string \<Rightarrow> bool" where
  "site_re_match (t # d # u # rest) =
     (t = CHR ''T'' \<and> d \<in> set ''0123'' \<and> u = CHR ''_'' \<and> (country_code rest \<or> site_name rest))"
| "site_re_match _ = False"

text \<open>The dictionary \<open>__protocols\<close> (se.py:242-245).\<close>

definition protocols :: "string \<rightharpoonup> string" where
  "protocols = [''srm'' \<mapsto> ''srmv2'', ''root'' \<mapsto> ''xrootd'']"

text \<open>The raise of \<open>None.groups()\<close> when a URL does not match \<open>__url_re\<close>.\<close>

definition quote :: char where
  "quote = CHR 0x27"

definition no_groups :: error where
  "no_groups =
     AttributeError ([quote] @ ''NoneType'' @ [quote] @ '' object has no attribute '' @
       [quote] @ ''groups'' @ [quote])"

text \<open>The format string \<open>{0}://{1}{2}/\<close> of se.py:304.\<close>

definition concrete_url :: "string \<Rightarrow> string \<Rightarrow> string \<Rightarrow> string" where
  "concrete_url protocol server path = protocol @ ''://'' @ server @ path @ ''/''"

text \<open>
  \<open>StorageConfiguration._expand_site\<close> (se.py:292-304). The branch for a site label reads
  the rule file of the site under \<open>/cvmfs/cms.cern.ch/SITECONF\<close> and applies its regular
  expression; both are outside the repository, so \<open>site_sub real_protocol server path\<close>
  stands for \<open>re.sub(*self._find_match(real_protocol, server, path), path)\<close>, the
  rewritten URL or the exception raised on the way.
\<close>

definition expand_site ::
  "(string \<Rightarrow> string \<Rightarrow> string \<Rightarrow> error + string) \<Rightarrow> string \<Rightarrow> error + string" where
  "expand_site site_sub url =
     (case url_re_match url of
        None \<Rightarrow> Inl no_groups
      | Some (protocol, server, path) \<Rightarrow>
          if site_re_match server \<and> protocols protocol \<noteq> None
          then site_sub (the (protocols protocol)) server path
          else Inr (concrete_url protocol server path))"

section \<open>\<open>StorageElement\<close>: instances, the registry and dispatch\<close>

text \<open>
  A storage method takes the physical path and may read and change the outside world
  (file systems, servers) of type \<open>'w\<close>; it returns a value or raises.
\<close>

type_synonym 'w storage_method = "string \<Rightarrow> 'w \<Rightarrow> (error + pyval) \<times> 'w"

text \<open>
  Lists are Python objects: \<open>_systems\<close> and \<open>_defaults\<close> hold references, \<open>append\<close>
  changes the object behind a reference, and an assignment rebinds a name to another
  object. A reference is an address in the store \<open>lists\<close> of the registry below.
\<close>

type_synonym ref = nat

text \<open>
  An instance of \<open>StorageElement\<close> or of a subclass: \<open>__master\<close>, \<open>_pfnprefix\<close> (absent
  on a master), the instance attribute \<open>_systems\<close> (absent until \<open>default()\<close> binds it),
  and the storage methods that ordinary attribute lookup finds on the instance or its
  class.
\<close>

record 'w storage_element =
  se_master :: bool
  se_pfnprefix :: "string option"
  se_systems :: "ref option"
  se_attrs :: "string \<rightharpoonup> 'w storage_method"

text \<open>
  The class attributes of \<open>StorageElement\<close> (se.py:24-25) and the list objects. No
  subclass defines \<open>_systems\<close> or \<open>_defaults\<close>, and \<open>reset\<close> and \<open>store\<close> are called on
  \<open>StorageElement\<close> itself (se.py:355-360), so attribute lookup on any subclass or on
  an instance without a binding of its own ends at these two.
\<close>

record 'w registry =
  cls_defaults :: ref
  cls_systems :: ref
  lists :: "ref \<Rightarrow> 'w storage_element list"
  fresh :: ref

definition initial_registry :: "'w registry" where
  "initial_registry =
     \<lparr>cls_defaults = 0, cls_systems = 1, lists = (\<lambda>r. []), fresh = 2\<rparr>"

text \<open>The lookups \<open>self._systems\<close> and \<open>self._defaults\<close>, and the list that is iterated.\<close>

definition get_systems :: "'w storage_element \<Rightarrow> 'w registry \<Rightarrow> ref" where
  "get_systems self st = (case se_systems self of Some r \<Rightarrow> r | None \<Rightarrow> cls_systems st)"

definition get_defaults :: "'w storage_element \<Rightarrow> 'w registry \<Rightarrow> ref" where
  "get_defaults self st = cls_defaults st"

definition active :: "'w storage_element \<Rightarrow> 'w registry \<Rightarrow> 'w storage_element list" where
  "active self st = lists st (get_systems self st)"

text \<open>
  \<open>StorageElement.__init__\<close> (se.py:27-48); \<open>ms\<close> are the storage methods that the
  subclass defines or binds after the call to the base constructor.
\<close>

definition init ::
  "string option \<Rightarrow> (string \<rightharpoonup> 'w storage_method) \<Rightarrow> 'w registry \<Rightarrow> 'w storage_element \<times> 'w registry" where
  "init pfnprefix ms st =
     (case pfnprefix of
        Some p \<Rightarrow>
          (let self = \<lparr>se_master = False, se_pfnprefix = Some p, se_systems = None, se_attrs = ms\<rparr>;
               r = cls_systems st
           in (self, st\<lparr>lists := (lists st)(r := lists st r @ [self])\<rparr>))
      | None \<Rightarrow>
          (\<lparr>se_master = True, se_pfnprefix = None, se_systems = None, se_attrs = ms\<rparr>, st))"

text \<open>\<open>StorageElement.reset\<close> and \<open>StorageElement.store\<close> (se.py:80-86).\<close>

definition reset :: "'w registry \<Rightarrow> 'w registry" where
  "reset st =
     st\<lparr>cls_systems := fresh st, lists := (lists st)(fresh st := []), fresh := Suc (fresh st)\<rparr>"

definition store :: "'w registry \<Rightarrow> 'w registry" where
  "store st =
     st\<lparr>cls_defaults := fresh st,
        lists := (lists st)(fresh st := lists st (cls_systems st)),
        fresh := Suc (fresh st)\<rparr>"

text \<open>
  \<open>StorageElement.default\<close> (se.py:88-95), a context manager: \<open>body\<close> is the block of
  the \<open>with\<close> statement. It runs with the instance attribute rebound and may change the
  instance, the registry and the world; \<open>Inl\<close> is an exception raised in the block. The
  \<open>finally\<close> clause runs in both cases and the outcome of the block is passed on.
\<close>

definition default_scope ::
  "'w storage_element \<Rightarrow>
   ('w storage_element \<Rightarrow> 'w registry \<Rightarrow> 'w \<Rightarrow> (error + 'a) \<times> 'w storage_element \<times> 'w registry \<times> 'w) \<Rightarrow>
   'w registry \<Rightarrow> 'w \<Rightarrow> (error + 'a) \<times> 'w storage_element \<times> 'w registry \<times> 'w" where
  "default_scope self body st w =
     (let tmp = get_systems self st;
          self1 = self\<lparr>se_systems := Some (get_defaults self st)\<rparr>
      in case body self1 st w of
           (r, self2, st2, w2) \<Rightarrow> (r, self2\<lparr>se_systems := Some tmp\<rparr>, st2, w2))"

text \<open>
  \<open>StorageElement.fixresult\<close> (se.py:68-78). \<open>map\<close> consumes a generator at once, so an
  exception of the generator is raised here; a \<open>TypeError\<close> is caught and the generator,
  finished by then, is returned. \<open>map\<close> over a \<open>bool\<close>, an \<open>int\<close> or \<open>None\<close> raises
  \<open>TypeError\<close> and the value is returned as it is.
\<close>

fun is_TypeError :: "error \<Rightarrow> bool" where
  "is_TypeError (TypeError m) = True"
| "is_TypeError _ = False"

fun fixresult :: "string \<Rightarrow> pyval \<Rightarrow> error + pyval" where
  "fixresult P (PStr s) = Inr (PStr (pfn2lfn P s))"
| "fixresult P (PList xs) = Inr (PList (map (pfn2lfn P) xs))"
| "fixresult P (PGen xs None) = Inr (PList (map (pfn2lfn P) xs))"
| "fixresult P (PGen xs (Some e)) = (if is_TypeError e then Inr (PGen [] None) else Inl e)"
| "fixresult P res = Inr res"

text \<open>
  The body of the \<open>try\<close> in \<open>switch\<close> (se.py:57),
  \<open>imp.fixresult(getattr(imp, attr)(imp.lfn2pfn(path)))\<close>, for one element of
  \<open>_systems\<close>: the attribute is looked up first (an element of \<open>_systems\<close> is not a
  master, so \<open>__getattr__\<close> raises \<open>KeyError\<close> for a name that lookup does not find),
  then the path is translated, the method is called and its result translated back.
\<close>

definition attempt :: "'w storage_element \<Rightarrow> string \<Rightarrow> string \<Rightarrow> 'w \<Rightarrow> (error + pyval) \<times> 'w" where
  "attempt imp attr path w =
     (case se_attrs imp attr of
        None \<Rightarrow> (Inl (KeyError attr), w)
      | Some m \<Rightarrow>
          (case se_pfnprefix imp of
             None \<Rightarrow> (Inl (KeyError ''_pfnprefix''), w)
           | Some P \<Rightarrow>
               (case m (lfn2pfn P path) w of
                  (Inl e, w') \<Rightarrow> (Inl e, w')
                | (Inr res, w') \<Rightarrow> (fixresult P res, w'))))"

text \<open>
  The closure \<open>switch\<close> that \<open>StorageElement.__getattr__\<close> returns (se.py:54-61), over
  the list that \<open>self._systems\<close> names when it is called.
\<close>

definition no_resolution :: "string \<Rightarrow> error" where
  "no_resolution path =
     AttributeError (''no path resolution found for '' @ [quote] @ path @ [quote])"

fun switch :: "'w storage_element list \<Rightarrow> string \<Rightarrow> string \<Rightarrow> 'w \<Rightarrow> (error + pyval) \<times> 'w" where
  "switch [] attr path w = (Inl (no_resolution path), w)"
| "switch (imp # imps) attr path w =
     (case attempt imp attr path w of
        (Inr v, w') \<Rightarrow> (Inr v, w')
      | (Inl e, w') \<Rightarrow> switch imps attr path w')"

text \<open>
  A call \<open>self.attr(path)\<close>: ordinary lookup, then \<open>__getattr__\<close> (se.py:50-61), which
  raises \<open>KeyError\<close> on an instance that is not a master and dispatches on a master.
\<close>

definition call :: "'w storage_element \<Rightarrow> 'w registry \<Rightarrow> string \<Rightarrow> string \<Rightarrow> 'w \<Rightarrow> (error + pyval) \<times> 'w" where
  "call self st attr path w =
     (case se_attrs self attr of
        Some m \<Rightarrow> m path w
      | None \<Rightarrow>
          if \<not> se_master self then (Inl (KeyError attr), w)
          else switch (active self st) attr path w)"

text \<open>
  The runs of backends whose attempts all raise: \<open>all_fail imps attr path w\<close> is the
  world after them, or \<open>None\<close> when one of them returns.
\<close>

fun all_fail :: "'w storage_element list \<Rightarrow> string \<Rightarrow> string \<Rightarrow> 'w \<Rightarrow> 'w option" where
  "all_fail [] attr path w = Some w"
| "all_fail (imp # imps) attr path w =
     (case attempt imp attr path w of
        (Inl e, w') \<Rightarrow> all_fail imps attr path w'
      | (Inr v, w') \<Rightarrow> None)"

text \<open>The test \<open>sub in s\<close> on strings.\<close>

fun contains :: "string \<Rightarrow> string \<Rightarrow> bool" where
  "contains [] sub = (sub = [])"
| "contains (c # cs) sub = (startswith (c # cs) sub \<or> contains cs sub)"

section \<open>\<open>StorageConfiguration\<close>: state, activation and task parameters\<close>

text \<open>
  The fields that \<open>StorageConfiguration.__init__\<close> sets (se.py:254-264): the URL lists
  after site expansion and the flags of the configuration.
\<close>

record storage_configuration =
  sc_input :: "string list"
  sc_output :: "string list"
  sc_wq_inputs :: bool
  sc_wq_outputs :: bool
  sc_shuffle_inputs :: bool
  sc_shuffle_outputs :: bool
  sc_no_streaming :: bool

text \<open>\<open>map(self._expand_site, urls)\<close>: the first exception ends the constructor.\<close>

fun expand_all ::
  "(string \<Rightarrow> string \<Rightarrow> string \<Rightarrow> error + string) \<Rightarrow> string list \<Rightarrow> error + string list" where
  "expand_all site_sub [] = Inr []"
| "expand_all site_sub (url # urls) =
     (case expand_site site_sub url of
        Inl e \<Rightarrow> Inl e
      | Inr u \<Rightarrow> (case expand_all site_sub urls of Inl e \<Rightarrow> Inl e | Inr us \<Rightarrow> Inr (u # us)))"

text \<open>
  The constructor, from the values that \<open>config.get\<close> returns for the seven options
  (the defaults are \<open>[]\<close> and \<open>False\<close>).
\<close>

definition StorageConfiguration ::
  "(string \<Rightarrow> string \<Rightarrow> string \<Rightarrow> error + string) \<Rightarrow> string list \<Rightarrow> string list \<Rightarrow>
   bool \<Rightarrow> bool \<Rightarrow> bool \<Rightarrow> bool \<Rightarrow> bool \<Rightarrow> error + storage_configuration" where
  "StorageConfiguration site_sub inputs outputs wq_in wq_out shuf_in shuf_out no_stream =
     (case expand_all site_sub inputs of
        Inl e \<Rightarrow> Inl e
      | Inr ins \<Rightarrow>
          (case expand_all site_sub outputs of
             Inl e \<Rightarrow> Inl e
           | Inr outs \<Rightarrow>
               Inr \<lparr>sc_input = ins, sc_output = outs, sc_wq_inputs = wq_in,
                    sc_wq_outputs = wq_out, sc_shuffle_inputs = shuf_in,
                    sc_shuffle_outputs = shuf_out, sc_no_streaming = no_stream\<rparr>))"

definition transfer_inputs :: "storage_configuration \<Rightarrow> bool" where
  "transfer_inputs self = sc_wq_inputs self"

definition transfer_outputs :: "storage_configuration \<Rightarrow> bool" where
  "transfer_outputs self = sc_wq_outputs self"

text \<open>
  \<open>StorageConfiguration.local\<close> (se.py:316-326): the loop over
  \<open>self.__input + self.__output\<close>; \<open>isfile\<close> is \<open>os.path.isfile\<close> on the local disk.
\<close>

definition no_local_access :: error where
  "no_local_access =
     IOError (''Can'' @ [quote] @ ''t create LFN without local storage access'')"

fun local_scan :: "(string \<Rightarrow> bool) \<Rightarrow> string list \<Rightarrow> string \<Rightarrow> error + string" where
  "local_scan isfile [] filename = Inl no_local_access"
| "local_scan isfile (url # urls) filename =
     (case url_re_match url of
        None \<Rightarrow> Inl no_groups
      | Some (protocol, server, path) \<Rightarrow>
          if protocol \<noteq> ''file'' then local_scan isfile urls filename
          else
            let fn = os_path_join path filename
            in if isfile fn then Inr fn else local_scan isfile urls filename)"

definition local_path :: "(string \<Rightarrow> bool) \<Rightarrow> storage_configuration \<Rightarrow> string \<Rightarrow> error + string" where
  "local_path isfile self filename = local_scan isfile (sc_input self @ sc_output self) filename"

text \<open>
  What the specification says of \<open>local\<close>, word for word: the first URL whose protocol
  is the local one is chosen, its path is joined with the file name, and the result is
  returned if that file exists; otherwise the call fails.
\<close>

definition is_file_url :: "string \<Rightarrow> bool" where
  "is_file_url url =
     (case url_re_match url of None \<Rightarrow> False | Some (protocol, server, path) \<Rightarrow> protocol = ''file'')"

definition local_spec :: "(string \<Rightarrow> bool) \<Rightarrow> storage_configuration \<Rightarrow> string \<Rightarrow> error + string" where
  "local_spec isfile self filename =
     (case find is_file_url (sc_input self @ sc_output self) of
        None \<Rightarrow> Inl no_local_access
      | Some url \<Rightarrow>
          (case url_re_match url of
             None \<Rightarrow> Inl no_local_access
           | Some (protocol, server, path) \<Rightarrow>
               let fn = os_path_join path filename
               in if isfile fn then Inr fn else Inl no_local_access))"

text \<open>
  The two ways in which the loop of \<open>local\<close> treats a URL: it goes on to the next one,
  or it returns.
\<close>

definition passed_over :: "(string \<Rightarrow> bool) \<Rightarrow> string \<Rightarrow> string \<Rightarrow> bool" where
  "passed_over isfile filename url =
     (case url_re_match url of
        None \<Rightarrow> False
      | Some (protocol, server, path) \<Rightarrow>
          protocol \<noteq> ''file'' \<or> \<not> isfile (os_path_join path filename))"

text \<open>
  The environment of \<open>_initialize\<close>: whether \<open>chirp.Client(server, timeout=10)\<close> raises
  and what, whether \<open>import hadoopy\<close> succeeded and the class \<open>Hadoop\<close> exists, and the
  storage methods that an instance of each class has, by class name, server and prefix.
\<close>

record 'w environment =
  chirp_client :: "string \<Rightarrow> error option"
  hadoop_defined :: bool
  methods_of :: "string \<Rightarrow> string \<Rightarrow> string \<Rightarrow> (string \<rightharpoonup> 'w storage_method)"

fun is_AuthenticationFailure :: "error \<Rightarrow> bool" where
  "is_AuthenticationFailure (AuthenticationFailure m) = True"
| "is_AuthenticationFailure _ = False"

text \<open>
  \<open>StorageConfiguration._initialize\<close> (se.py:328-347). \<open>Chirp.__init__\<close> calls the base
  constructor, which registers the instance, before it connects (se.py:145-147), so a
  failed connection leaves the instance in the registry. The outcome is the exception
  raised, if any, and the registry.
\<close>

fun initialize ::
  "'w environment \<Rightarrow> string list \<Rightarrow> 'w registry \<Rightarrow> error option \<times> 'w registry" where
  "initialize env [] st = (None, st)"
| "initialize env (url # methods) st =
     (case url_re_match url of
        None \<Rightarrow> (Some no_groups, st)
      | Some (protocol, server, path) \<Rightarrow>
          if protocol = ''chirp'' then
            (let st1 = snd (init (Some path) (methods_of env ''Chirp'' server path) st)
             in case chirp_client env server of
                  Some e \<Rightarrow>
                    (Some (if is_AuthenticationFailure e
                           then AttributeError ''cannot access chirp server'' else e), st1)
                | None \<Rightarrow> initialize env methods st1)
          else if protocol = ''file'' then
            initialize env methods (snd (init (Some path) (methods_of env ''Local'' server path) st))
          else if protocol = ''hdfs'' then
            (if hadoop_defined env
             then initialize env methods
                    (snd (init (Some path) (methods_of env ''Hadoop'' server path) st))
             else (Some (NotImplementedError ''hadoop support is missing on this system''), st))
          else if protocol = ''srm'' then
            initialize env methods (snd (init (Some url) (methods_of env ''SRM'' server url) st))
          else initialize env methods st)"

text \<open>\<open>StorageConfiguration.activate\<close> (se.py:349-362).\<close>

definition activate ::
  "'w environment \<Rightarrow> storage_configuration \<Rightarrow> 'w registry \<Rightarrow> error option \<times> 'w registry" where
  "activate env self st =
     (case initialize env (sc_input self) (reset st) of
        (Some e, st1) \<Rightarrow> (Some e, st1)
      | (None, st1) \<Rightarrow> initialize env (sc_output self) (reset (store st1)))"

text \<open>
  \<open>StorageConfiguration.preprocess\<close> (se.py:364-382). \<open>random.shuffle\<close> reorders a list
  in place from the state \<open>'g\<close> of the generator; \<open>shuffle\<close> returns the reordered list
  and the next state. The outcome is the configuration, the dictionary \<open>parameters\<close> and
  the generator after the call.
\<close>

definition preprocess ::
  "('g \<Rightarrow> string list \<Rightarrow> string list \<times> 'g) \<Rightarrow> storage_configuration \<Rightarrow>
   (string \<rightharpoonup> pyval) \<Rightarrow> bool \<Rightarrow> 'g \<Rightarrow> storage_configuration \<times> (string \<rightharpoonup> pyval) \<times> 'g" where
  "preprocess shuffle self parameters merge g =
     (let (ins, g1) = (if sc_shuffle_inputs self then shuffle g (sc_input self)
                       else (sc_input self, g));
          (outs, g2) = (if sc_shuffle_outputs self \<or> (sc_shuffle_inputs self \<and> merge)
                        then shuffle g1 (sc_output self) else (sc_output self, g1));
          parameters1 = parameters(''input'' \<mapsto> PList (if \<not> merge then ins else outs));
          parameters2 = parameters1(''output'' \<mapsto> PList outs);
          parameters3 = parameters2(''disable streaming'' \<mapsto> PBool (sc_no_streaming self))
      in (self\<lparr>sc_input := ins, sc_output := outs\<rparr>, parameters3, g2))"

section \<open>The \<open>Chirp\<close> backend\<close>

text \<open>
  An entry of a listing of the Chirp client, and the one method of the client that the
  three methods below use, \<open>self.__c.ls(path)\<close>: the entries, or the exception raised.
\<close>

record chirp_stat =
  stat_path :: string
  stat_size :: int

type_synonym 'w chirp_ls = "string \<Rightarrow> 'w \<Rightarrow> (error + chirp_stat list) \<times> 'w"



text \<open>
  \<open>Chirp.ls\<close> (se.py:165-168), a generator: the call itself returns, and the listing is
  made, and may raise, when the first item is asked for.
\<close>

definition Chirp_ls :: "'w chirp_ls \<Rightarrow> 'w storage_method" where
  "Chirp_ls c_ls path w =
     (case c_ls path w of
        (Inl e, w') \<Rightarrow> (Inr (PGen [] (Some e)), w')
      | (Inr entries, w') \<Rightarrow>
          (Inr (PGen (map (\<lambda>f. os_path_join path (stat_path f))
                       (filter (\<lambda>f. stat_path f \<notin> set [''.'', ''..'']) entries)) None), w'))"

section \<open>The \<open>SRM\<close> backend\<close>

text \<open>
  \<open>str.split()\<close> without argument: the words between runs of white space.
\<close>

definition is_space :: "char \<Rightarrow> bool" where
  "is_space c = (c \<in> set [CHR '' '', CHR 0x09, CHR 0x0A, CHR 0x0B, CHR 0x0C, CHR 0x0D])"

fun split_words :: "string \<Rightarrow> string \<Rightarrow> string list" where
  "split_words word [] = (if word = [] then [] else [word])"
| "split_words word (c # cs) =
     (if is_space c then (if word = [] then split_words [] cs else word # split_words [] cs)
      else split_words (word @ [c]) cs)"

definition split :: "string \<Rightarrow> string list" where
  "split s = split_words [] s"

text \<open>\<open>' '.join(args)\<close>.\<close>

fun join_spaces :: "string list \<Rightarrow> string" where
  "join_spaces [] = []"
| "join_spaces [a] = a"
| "join_spaces (a # b # bs) = a @ '' '' @ join_spaces (b # bs)"

text \<open>
  A finished subprocess, and \<open>Popen(args, ...)\<close> followed by \<open>wait()\<close>: the process, or
  the exception raised when it cannot be started.
\<close>

record process =
  returncode :: int
  stdout :: string
  stderr :: string

type_synonym 'w popen = "string list \<Rightarrow> 'w \<Rightarrow> (error + process) \<times> 'w"

fun is_OSError :: "error \<Rightarrow> bool" where
  "is_OSError (OSError m) = True"
| "is_OSError _ = False"

definition lcg_args :: "string \<Rightarrow> string list \<Rightarrow> string \<Rightarrow> string list" where
  "lcg_args c0 cs path = [''lcg-'' @ c0] @ cs @ [''-b'', ''-D'', ''srmv2'', path]"

definition failed_to_execute :: "string list \<Rightarrow> process \<Rightarrow> error" where
  "failed_to_execute args p =
     IOError (''Failed to execute '' @ [quote] @ join_spaces args @ [quote] @ '':'' @
       [newline] @ stderr p @ [newline] @ stdout p)"

text \<open>
  \<open>SRM.execute\<close> (se.py:186-197). In Python 2 \<open>IOError\<close> is not an \<open>OSError\<close>, so the
  \<open>IOError\<close> raised inside the \<open>try\<close> passes the \<open>except OSError\<close> clause. \<open>cmds[0]\<close>
  raises \<open>IndexError\<close> for a command without a word.
\<close>

definition SRM_execute ::
  "'w popen \<Rightarrow> string \<Rightarrow> string \<Rightarrow> bool \<Rightarrow> 'w \<Rightarrow> (error + string) \<times> 'w" where
  "SRM_execute popen cmd path safe w =
     (case split cmd of
        [] \<Rightarrow> (Inl (IndexError ''list index out of range''), w)
      | c0 # cs \<Rightarrow>
          (let args = lcg_args c0 cs path
           in case popen args w of
                (Inl e, w') \<Rightarrow>
                  (if is_OSError e then Inl (AttributeError ''srm utilities not available'')
                   else Inl e, w')
              | (Inr p, w') \<Rightarrow>
                  if returncode p \<noteq> 0 \<and> \<not> safe then (Inl (failed_to_execute args p), w')
                  else (Inr (stdout p), w')))"

text \<open>\<open>SRM.exists\<close> (se.py:202-207) and \<open>SRM.remove\<close> (se.py:233-235).\<close>

definition SRM_exists :: "'w popen \<Rightarrow> 'w storage_method" where
  "SRM_exists popen path w =
     (case SRM_execute popen ''ls'' path False w of
        (Inl e, w') \<Rightarrow> (Inr (PBool False), w')
      | (Inr out, w') \<Rightarrow> (Inr (PBool True), w'))"

definition SRM_remove :: "'w popen \<Rightarrow> 'w storage_method" where
  "SRM_remove popen path w =
     (case SRM_execute popen ''del'' path True w of
        (Inl e, w') \<Rightarrow> (Inl e, w')
      | (Inr out, w') \<Rightarrow> (Inr PNone, w'))"

section \<open>Concrete configurations used in the examples\<close>

text \<open>
  A world that records the calls made on it: every method of a recording backend adds
  its name and the physical path it was given to the log.
\<close>

definition recording :: "string \<Rightarrow> (error + pyval) \<Rightarrow> string list storage_method" where
  "recording name outcome pfn w = (outcome, w @ [name @ '' '' @ pfn])"

definition backend :: "string \<Rightarrow> (string \<rightharpoonup> 'w storage_method) \<Rightarrow> 'w storage_element" where
  "backend p ms = \<lparr>se_master = False, se_pfnprefix = Some p, se_systems = None, se_attrs = ms\<rparr>"

definition down_backend :: "string list storage_element" where
  "down_backend =
     backend ''/mnt/in''
       [''ls'' \<mapsto> recording ''down'' (Inl (IOError ''connection refused'')),
        ''getsize'' \<mapsto> recording ''down'' (Inl (IOError ''connection refused''))]"

definition disk_methods :: "string \<rightharpoonup> string list storage_method" where
  "disk_methods =
     [''ls'' \<mapsto> recording ''disk'' (Inr (PList [''/data/out/a.txt'', ''/data/out/b.txt'']))]"

definition disk_backend :: "string list storage_element" where
  "disk_backend = backend ''/data/out'' disk_methods"


text \<open>A master as \<open>StorageElement()\<close> builds it in the initial registry.\<close>

definition fresh_proxy :: "string list storage_element" where
  "fresh_proxy = fst (init None Map.empty initial_registry)"

text \<open>No site rule file is at hand in the examples.\<close>

definition no_siteconf :: "string \<Rightarrow> string \<Rightarrow> string \<Rightarrow> error + string" where
  "no_siteconf real_protocol server path = Inl (IOError ''No such file or directory'')"

text \<open>
  An environment in which every class has the one method \<open>exists\<close>, which records the
  call and answers that the path is there.
\<close>

definition plain_environment :: "string list environment" where
  "plain_environment =
     \<lparr>chirp_client = (\<lambda>server. None), hadoop_defined = False,
      methods_of = (\<lambda>cls server p. [''exists'' \<mapsto> recording cls (Inr (PBool True))])\<rparr>"

definition example_configuration :: storage_configuration where
  "example_configuration =
     \<lparr>sc_input = [''file:///data/in/''], sc_output = [''file:///data/out/''],
      sc_wq_inputs = False, sc_wq_outputs = False, sc_shuffle_inputs = False,
      sc_shuffle_outputs = False, sc_no_streaming = True\<rparr>"

definition two_disks :: storage_configuration where
  "two_disks =
     \<lparr>sc_input = [''file:///a/''], sc_output = [''file:///b/''],
      sc_wq_inputs = False, sc_wq_outputs = False, sc_shuffle_inputs = False,
      sc_shuffle_outputs = False, sc_no_streaming = False\<rparr>"

definition only_on_b :: "string \<Rightarrow> bool" where
  "only_on_b fn = (fn = ''/b/x.root'')"

text \<open>A shuffle that reverses the list, and counts its calls.\<close>

definition reversing :: "nat \<Rightarrow> string list \<Rightarrow> string list \<times> nat" where
  "reversing g xs = (rev xs, Suc g)"


text \<open>A grid client that is installed and fails with status 1 whatever it is asked.\<close>

definition failing_client :: "unit popen" where
  "failing_client args w =
     (Inr \<lparr>returncode = 1, stdout = ''out'', stderr = ''no such file''\<rparr>, w)"

text \<open>
  The registry after \<open>activate()\<close> of the example configuration, and two blocks for a
  \<open>with self.default():\<close> statement: one asks whether a file exists, one raises.
\<close>

definition activated :: "string list registry" where
  "activated = snd (activate plain_environment example_configuration initial_registry)"

definition asking ::
  "string list storage_element \<Rightarrow> string list registry \<Rightarrow> string list \<Rightarrow>
   (error + pyval) \<times> string list storage_element \<times> string list registry \<times> string list" where
  "asking self st w =
     (case call self st ''exists'' ''/a.txt'' w of (r, w') \<Rightarrow> (r, self, st, w'))"

definition raising ::
  "string list storage_element \<Rightarrow> string list registry \<Rightarrow> string list \<Rightarrow>
   (error + pyval) \<times> string list storage_element \<times> string list registry \<times> string list" where
  "raising self st w = (Inl (IOError ''disk full''), self, st, w)"

section \<open>Round trip between logical and physical paths\<close>

subsection \<open>Facts about the string primitives\<close>

lemma startswith_append: "startswith (p @ s) p"
  by (induction p) auto

lemma startswith_single: "startswith s [c] \<longleftrightarrow> (\<exists>t. s = c # t)"
  by (cases s) auto

lemma endswith_single: "endswith s [c] \<longleftrightarrow> (s \<noteq> [] \<and> last s = c)"
proof (cases s rule: rev_cases)
  case Nil
  then show ?thesis by (simp add: endswith_def)
next
  case (snoc ys y)
  then show ?thesis by (simp add: endswith_def)
qed

lemma replace_first_at_front: "old \<noteq> [] \<Longrightarrow> replace_first old (old @ s) = s"
  by (cases old) (simp_all add: startswith_append)

lemma replace_first_empty: "replace_first [] s = s"
  by (cases s) simp_all

lemma length_replace_first: "length (replace_first old s) \<le> length s"
  by (induction s) auto

subsection \<open>Round trip of a rooted logical path\<close>

lemma lfn2pfn_rooted:
  "lfn2pfn P (CHR ''/'' # r) = os_path_join P r"
  by (simp add: lfn2pfn_def)

lemma roundtrip_plain_prefix:
  assumes "P \<noteq> []" and "last P \<noteq> CHR ''/''" and "\<not> startswith r ''/''"
  shows "pfn2lfn P (lfn2pfn P (CHR ''/'' # r)) = CHR ''/'' # r"
proof -
  have "\<not> endswith P ''/''"
    using assms(2) by (simp add: endswith_single)
  then have "lfn2pfn P (CHR ''/'' # r) = P @ (CHR ''/'' # r)"
    using assms(1,3) by (simp add: lfn2pfn_rooted os_path_join_def)
  then show ?thesis
    using assms(1) by (simp add: pfn2lfn_def replace_first_at_front)
qed

lemma roundtrip_slash_prefix:
  assumes "P = [] \<or> last P = CHR ''/''" and "\<not> startswith r ''/''"
  shows "pfn2lfn P (lfn2pfn P (CHR ''/'' # r)) = r"
proof -
  have "P = [] \<or> endswith P ''/''"
    using assms(1) by (auto simp: endswith_single)
  then have pfn: "lfn2pfn P (CHR ''/'' # r) = P @ r"
    using assms(2) by (auto simp: lfn2pfn_rooted os_path_join_def)
  show ?thesis
  proof (cases "P = []")
    case True
    then show ?thesis using pfn by (simp add: pfn2lfn_def replace_first_empty)
  next
    case False
    then show ?thesis using pfn by (simp add: pfn2lfn_def replace_first_at_front)
  qed
qed

text \<open>
  Claim C1, as the code has it: for a backend whose prefix is not empty and does not end
  with a slash, and a logical path that is a slash followed by a remainder that does not
  itself start with a slash, translating to the physical path and back gives the logical
  path again.
\<close>

theorem lfn_pfn_roundtrip:
  "P \<noteq> [] \<Longrightarrow> last P \<noteq> CHR ''/'' \<Longrightarrow> \<not> startswith r ''/'' \<Longrightarrow>
     pfn2lfn P (lfn2pfn P (CHR ''/'' # r)) = CHR ''/'' # r"
  by (rule roundtrip_plain_prefix)

theorem lfn_pfn_roundtrip_witness:
  "''/data/in'' \<noteq> [] \<and> last ''/data/in'' \<noteq> CHR ''/'' \<and> \<not> startswith ''a.txt'' ''/'' \<and>
   lfn2pfn ''/data/in'' ''/a.txt'' = ''/data/in/a.txt'' \<and>
   pfn2lfn ''/data/in'' (lfn2pfn ''/data/in'' ''/a.txt'') = ''/a.txt''"
  using lfn_pfn_roundtrip [of "''/data/in''" "''a.txt''"]
  by (simp add: lfn2pfn_def os_path_join_def endswith_def)

text \<open>
  The round trip as claim C1 states it: the claim includes the \<open>Local\<close> backend built
  with its default empty prefix, and there the leading slash of the logical path is lost.
\<close>

theorem lfn_pfn_roundtrip_counterexample:
  "pfn2lfn Local_default_pfnprefix (lfn2pfn Local_default_pfnprefix ''/a.txt'') \<noteq> ''/a.txt''"
  by (simp add: Local_default_pfnprefix_def pfn2lfn_def lfn2pfn_def os_path_join_def)

text \<open>
  The same loss happens for a prefix that ends with a slash, and a logical path with two
  leading slashes loses the prefix on the way out and one slash on the way.
\<close>

lemma roundtrip_other_failures:
  "pfn2lfn ''/data/in/'' (lfn2pfn ''/data/in/'' ''/a.txt'') = ''a.txt'' \<and>
   pfn2lfn ''/data/in'' (lfn2pfn ''/data/in'' ''//a.txt'') = ''/a.txt''"
  by (simp add: pfn2lfn_def lfn2pfn_def os_path_join_def endswith_def)

section \<open>Site expansion applied twice\<close>

lemma all_takeWhile: "x \<in> set (takeWhile P xs) \<Longrightarrow> P x"
  by (induction xs) (auto split: if_splits)

lemma takeWhile_stop:
  "(\<And>x. x \<in> set xs \<Longrightarrow> P x) \<Longrightarrow> \<not> P y \<Longrightarrow> takeWhile P (xs @ y # ys) = xs"
  by (induction xs) auto

lemma dropWhile_stop:
  "(\<And>x. x \<in> set xs \<Longrightarrow> P x) \<Longrightarrow> \<not> P y \<Longrightarrow> dropWhile P (xs @ y # ys) = y # ys"
  by (induction xs) auto

lemma takeWhile_whole: "(\<And>x. x \<in> set xs \<Longrightarrow> P x) \<Longrightarrow> takeWhile P xs = xs"
  by (induction xs) auto

lemma dropWhile_whole: "(\<And>x. x \<in> set xs \<Longrightarrow> P x) \<Longrightarrow> dropWhile P xs = []"
  by (induction xs) auto

text \<open>The third group is empty or starts with the slash that ended the second.\<close>

lemma path_slash_head:
  "\<exists>t. takeWhile not_newline (dropWhile not_slash r) @ ''/'' = CHR ''/'' # t"
proof (cases "dropWhile not_slash r")
  case Nil
  show ?thesis unfolding Nil by simp
next
  case (Cons c cs)
  then have "\<not> not_slash c"
    by (metis hd_dropWhile list.sel(1) list.distinct(1))
  then have "c = CHR ''/''" by (simp add: not_slash_def)
  then show ?thesis using Cons by (simp add: not_newline_def newline_def)
qed

text \<open>
  Parsing the URL that the last line of \<open>_expand_site\<close> builds gives the same protocol
  and server, and a path that is one slash longer.
\<close>

lemma url_re_match_concrete:
  assumes "url_re_match url = Some (protocol, server, path)"
  shows "url_re_match (concrete_url protocol server path) = Some (protocol, server, path @ ''/'')"
proof -
  from assms have pr: "protocol = takeWhile is_lower url" and ne: "protocol \<noteq> []"
    and sv: "server = takeWhile not_slash (drop 3 (dropWhile is_lower url))"
    and pa: "path = takeWhile not_newline (dropWhile not_slash (drop 3 (dropWhile is_lower url)))"
    by (auto simp: url_re_match_def Let_def split: if_splits)
  have lower: "\<And>x. x \<in> set protocol \<Longrightarrow> is_lower x"
    unfolding pr by (rule all_takeWhile)
  have colon: "\<not> is_lower CHR '':''"
    by (simp add: is_lower_def lower_chars_def)
  have noslash: "\<And>x. x \<in> set server \<Longrightarrow> not_slash x"
    unfolding sv by (rule all_takeWhile)
  have nonl: "\<And>x. x \<in> set (path @ ''/'') \<Longrightarrow> not_newline x"
    unfolding pa by (auto simp: not_newline_def newline_def dest: all_takeWhile)
  obtain t where t: "path @ ''/'' = CHR ''/'' # t"
    unfolding pa using path_slash_head by blast
  have cu: "concrete_url protocol server path = protocol @ CHR '':'' # (''//'' @ server @ path @ ''/'')"
    by (simp add: concrete_url_def)
  have p1: "takeWhile is_lower (concrete_url protocol server path) = protocol"
    unfolding cu using lower colon by (rule takeWhile_stop)
  have p2: "dropWhile is_lower (concrete_url protocol server path) = ''://'' @ server @ path @ ''/''"
    unfolding cu using dropWhile_stop [of protocol is_lower "CHR '':''", OF lower colon] by simp
  have slash: "\<not> not_slash CHR ''/''" by (simp add: not_slash_def)
  have s1: "takeWhile not_slash (server @ path @ ''/'') = server"
    unfolding t using noslash slash by (rule takeWhile_stop)
  have s2: "dropWhile not_slash (server @ path @ ''/'') = path @ ''/''"
    unfolding t using noslash slash by (rule dropWhile_stop)
  have q1: "takeWhile not_newline (path @ ''/'') = path @ ''/''"
    using nonl by (rule takeWhile_whole)
  have q2: "dropWhile not_newline (path @ ''/'') = []"
    using nonl by (rule dropWhile_whole)
  have d: "drop 3 (''://'' @ server @ path @ ''/'') = server @ path @ ''/''"
    by simp
  have sw: "startswith (''://'' @ server @ path @ ''/'') ''://''"
    by simp
  show ?thesis
    unfolding url_re_match_def Let_def p1 p2 d s1 s2 q1 q2
    using ne sw by (simp add: at_dollar_def)
qed

lemma url_re_match_data_in:
  "url_re_match ''file:///data/in'' = Some (''file'', [], ''/data/in'')"
  by (simp add: url_re_match_def is_lower_def lower_chars_def not_slash_def not_newline_def
      newline_def at_dollar_def)

text \<open>
  Claim C3 says that expanding an already concrete URL a second time changes nothing.
  The code does this instead: on every URL that takes the last line of \<open>_expand_site\<close>,
  the first expansion is \<open>protocol://server/path/\<close>, and expanding that adds one more
  slash, so the second expansion is never the first.
\<close>

theorem expand_site_twice:
  "url_re_match url = Some (protocol, server, path) \<Longrightarrow>
   \<not> (site_re_match server \<and> protocols protocol \<noteq> None) \<Longrightarrow>
     expand_site site_sub url = Inr (concrete_url protocol server path) \<and>
     expand_site site_sub (concrete_url protocol server path) =
       Inr (concrete_url protocol server path @ ''/'') \<and>
     expand_site site_sub (concrete_url protocol server path) \<noteq> expand_site site_sub url"
proof -
  assume m: "url_re_match url = Some (protocol, server, path)"
    and c: "\<not> (site_re_match server \<and> protocols protocol \<noteq> None)"
  have 1: "expand_site site_sub url = Inr (concrete_url protocol server path)"
    using m c by (auto simp: expand_site_def)
  have 2: "expand_site site_sub (concrete_url protocol server path) =
      Inr (concrete_url protocol server path @ ''/'')"
    using c url_re_match_concrete [OF m] by (auto simp: expand_site_def concrete_url_def)
  show ?thesis using 1 2 by simp
qed

theorem expand_site_twice_witness:
  "url_re_match ''file:///data/in'' = Some (''file'', [], ''/data/in'') \<and>
   expand_site no_siteconf ''file:///data/in'' = Inr ''file:///data/in/'' \<and>
   expand_site no_siteconf ''file:///data/in/'' = Inr ''file:///data/in//''"
  using expand_site_twice [OF url_re_match_data_in, of no_siteconf]
  by (simp add: url_re_match_data_in concrete_url_def)

section \<open>Dispatch over the registered backends\<close>

text \<open>Backends whose attempts raise are passed over, and only the world remembers them.\<close>

lemma switch_skips_failures:
  "all_fail pre attr path w = Some w1 \<Longrightarrow>
     switch (pre @ rest) attr path w = switch rest attr path w1"
proof (induction pre arbitrary: w)
  case Nil
  then show ?case by simp
next
  case (Cons imp pre)
  obtain r w' where a: "attempt imp attr path w = (r, w')"
    by (cases "attempt imp attr path w")
  show ?case
  proof (cases r)
    case (Inl e)
    with a Cons.prems have "all_fail pre attr path w' = Some w1" by simp
    then have "switch (pre @ rest) attr path w' = switch rest attr path w1"
      by (rule Cons.IH)
    with a Inl show ?thesis by simp
  next
    case (Inr v)
    with a Cons.prems show ?thesis by simp
  qed
qed

lemma attempt_success:
  "se_attrs imp attr = Some m \<Longrightarrow> se_pfnprefix imp = Some P \<Longrightarrow>
   m (lfn2pfn P path) w = (Inr res, w') \<Longrightarrow>
     attempt imp attr path w = (fixresult P res, w')"
  by (simp add: attempt_def)

lemma switch_success_here:
  "attempt imp attr path w = (Inr v, w') \<Longrightarrow> switch (imp # post) attr path w = (Inr v, w')"
  by simp

lemma switch_reaches:
  assumes "all_fail pre attr path w = Some w1"
    and "se_attrs imp attr = Some m" and "se_pfnprefix imp = Some P"
    and "m (lfn2pfn P path) w1 = (Inr res, w2)"
    and "fixresult P res = Inr v"
  shows "switch (pre @ imp # post) attr path w = (Inr v, w2)"
proof -
  have "attempt imp attr path w1 = (Inr v, w2)"
    using attempt_success [OF assms(2,3,4)] assms(5) by simp
  then have "switch (imp # post) attr path w1 = (Inr v, w2)"
    by (rule switch_success_here)
  then show ?thesis
    using switch_skips_failures [OF assms(1), of "imp # post"] by simp
qed



text \<open>
  Claim C4, as the code has it: when every registered backend raises, the registry
  raises one \<open>AttributeError\<close>, whose message names the logical path.
\<close>

theorem switch_no_backend:
  "all_fail imps attr path w = Some w' \<Longrightarrow>
     switch imps attr path w = (Inl (no_resolution path), w')"
  using switch_skips_failures [of imps attr path w w' "[]"] by simp

theorem switch_no_backend_witness:
  "all_fail [down_backend, disk_backend] ''getsize'' ''/a.txt'' [] = Some [''down /mnt/in/a.txt''] \<and>
   switch [down_backend, disk_backend] ''getsize'' ''/a.txt'' [] =
     (Inl (AttributeError (''no path resolution found for '' @ [quote] @ ''/a.txt'' @ [quote])),
      [''down /mnt/in/a.txt''])"
proof -
  have f: "all_fail [down_backend, disk_backend] ''getsize'' ''/a.txt'' [] =
      Some [''down /mnt/in/a.txt'']"
    by (simp add: down_backend_def disk_backend_def disk_methods_def backend_def attempt_def
        recording_def lfn2pfn_def os_path_join_def endswith_def)
  show ?thesis
    using f switch_no_backend [OF f] by (simp add: no_resolution_def)
qed

text \<open>
  Claim C4 as it is stated asks that the error name the operation as well. The message
  is built from the path alone: after a failed \<open>getsize\<close> it does not contain the word.
\<close>

theorem switch_no_backend_counterexample:
  "switch [down_backend, disk_backend] ''getsize'' ''/a.txt'' [] =
     (Inl (AttributeError (''no path resolution found for '' @ [quote] @ ''/a.txt'' @ [quote])),
      [''down /mnt/in/a.txt'']) \<and>
   \<not> contains (''no path resolution found for '' @ [quote] @ ''/a.txt'' @ [quote]) ''getsize''"
  by (simp add: down_backend_def disk_backend_def disk_methods_def backend_def attempt_def
      recording_def lfn2pfn_def os_path_join_def endswith_def no_resolution_def quote_def)

section \<open>Registration\<close>

lemma init_prefix:
  "init (Some p) ms st =
     (backend p ms,
      st\<lparr>lists := (lists st)(cls_systems st := lists st (cls_systems st) @ [backend p ms])\<rparr>)"
  by (simp add: init_def backend_def Let_def)

lemma init_master:
  "init None ms st =
     (\<lparr>se_master = True, se_pfnprefix = None, se_systems = None, se_attrs = ms\<rparr>, st)"
  by (simp add: init_def)

lemma active_after_init:
  "get_systems proxy st = cls_systems st \<Longrightarrow>
     active proxy
       (st\<lparr>lists := (lists st)(cls_systems st := lists st (cls_systems st) @ [backend p ms])\<rparr>) =
     active proxy st @ [backend p ms]"
  by (simp add: active_def get_systems_def split: option.splits)

lemma call_master:
  "se_master proxy \<Longrightarrow> se_attrs proxy attr = None \<Longrightarrow>
     call proxy st attr path w = switch (active proxy st) attr path w"
  by (simp add: call_def)

text \<open>
  Claim C9. The constructor called with a prefix returns an instance that is not a
  master and appends it to the list that the class attribute \<open>_systems\<close> names; the
  attribute itself is not rebound. Every instance whose lookup of \<open>_systems\<close> ends at the
  class attribute then iterates over the new backend, last: a call through such a master
  returns what the new backend returns once the backends before it have raised. The
  constructor called without a prefix changes nothing in the registry and returns a
  master, whose calls of names it does not have are dispatched.
\<close>

theorem init_registers:
  "(case init (Some p) ms st of
      (imp, st') \<Rightarrow>
        \<not> se_master imp \<and> se_pfnprefix imp = Some p \<and> se_attrs imp = ms \<and>
        cls_systems st' = cls_systems st \<and>
        lists st' (cls_systems st') = lists st (cls_systems st) @ [imp] \<and>
        (\<forall>proxy. get_systems proxy st = cls_systems st \<longrightarrow>
           active proxy st' = active proxy st @ [imp] \<and>
           (\<forall>attr path w w1 m res w2 v.
              se_master proxy \<and> se_attrs proxy attr = None \<and>
              all_fail (active proxy st) attr path w = Some w1 \<and>
              ms attr = Some m \<and> m (lfn2pfn p path) w1 = (Inr res, w2) \<and>
              fixresult p res = Inr v \<longrightarrow>
                call proxy st' attr path w = (Inr v, w2)))) \<and>
   (case init None ms st of
      (proxy, st') \<Rightarrow>
        st' = st \<and> se_master proxy \<and> se_pfnprefix proxy = None \<and>
        (\<forall>attr path w. ms attr = None \<longrightarrow>
           call proxy st' attr path w = switch (lists st (cls_systems st)) attr path w))"
proof -
  let ?imp = "backend p ms"
  let ?st' = "st\<lparr>lists := (lists st)(cls_systems st := lists st (cls_systems st) @ [?imp])\<rparr>"
  have sel: "\<not> se_master ?imp" "se_pfnprefix ?imp = Some p" "se_attrs ?imp = ms"
    by (simp_all add: backend_def)
  have cls: "cls_systems ?st' = cls_systems st"
    by simp
  have app: "lists ?st' (cls_systems ?st') = lists st (cls_systems st) @ [?imp]"
    by simp
  have disp: "call proxy ?st' attr path w = (Inr v, w2)"
    if g: "get_systems proxy st = cls_systems st"
      and h: "se_master proxy" "se_attrs proxy attr = None"
        "all_fail (active proxy st) attr path w = Some w1"
        "ms attr = Some m" "m (lfn2pfn p path) w1 = (Inr res, w2)" "fixresult p res = Inr v"
    for proxy :: "'a storage_element" and attr path w w1 m res w2 v
  proof -
    have "call proxy ?st' attr path w = switch (active proxy st @ [?imp]) attr path w"
      using call_master [OF h(1,2)] active_after_init [OF g] by simp
    also have "\<dots> = (Inr v, w2)"
    proof -
      have a: "se_attrs ?imp attr = Some m"
        using h(4) sel(3) by simp
      show ?thesis
        using switch_reaches [OF h(3) a sel(2) h(5) h(6), of "[]"] by simp
    qed
    finally show ?thesis .
  qed
  have first: "case init (Some p) ms st of
      (imp, st') \<Rightarrow>
        \<not> se_master imp \<and> se_pfnprefix imp = Some p \<and> se_attrs imp = ms \<and>
        cls_systems st' = cls_systems st \<and>
        lists st' (cls_systems st') = lists st (cls_systems st) @ [imp] \<and>
        (\<forall>proxy. get_systems proxy st = cls_systems st \<longrightarrow>
           active proxy st' = active proxy st @ [imp] \<and>
           (\<forall>attr path w w1 m res w2 v.
              se_master proxy \<and> se_attrs proxy attr = None \<and>
              all_fail (active proxy st) attr path w = Some w1 \<and>
              ms attr = Some m \<and> m (lfn2pfn p path) w1 = (Inr res, w2) \<and>
              fixresult p res = Inr v \<longrightarrow>
                call proxy st' attr path w = (Inr v, w2)))"
  proof -
    show ?thesis
      unfolding init_prefix prod.case
    proof (intro conjI allI impI)
      fix proxy :: "'a storage_element"
      assume "get_systems proxy st = cls_systems st"
      then show "active proxy ?st' = active proxy st @ [?imp]"
        by (rule active_after_init)
    next
      fix proxy :: "'a storage_element" and attr path w w1 m res w2 v
      assume g: "get_systems proxy st = cls_systems st"
        and h: "se_master proxy \<and> se_attrs proxy attr = None \<and>
          all_fail (active proxy st) attr path w = Some w1 \<and>
          ms attr = Some m \<and> m (lfn2pfn p path) w1 = (Inr res, w2) \<and>
          fixresult p res = Inr v"
      from h have h1: "se_master proxy" and h2: "se_attrs proxy attr = None"
        and h3: "all_fail (active proxy st) attr path w = Some w1"
        and h4: "ms attr = Some m" and h5: "m (lfn2pfn p path) w1 = (Inr res, w2)"
        and h6: "fixresult p res = Inr v"
        by blast+
      show "call proxy ?st' attr path w = (Inr v, w2)"
        using g h1 h2 h3 h4 h5 h6 by (rule disp)
    qed (rule sel cls app)+
  qed
  have second: "case init None ms st of
      (proxy, st') \<Rightarrow>
        st' = st \<and> se_master proxy \<and> se_pfnprefix proxy = None \<and>
        (\<forall>attr path w. ms attr = None \<longrightarrow>
           call proxy st' attr path w = switch (lists st (cls_systems st)) attr path w)"
    unfolding init_master prod.case
    by (simp add: call_def active_def get_systems_def)
  show ?thesis using first second by (rule conjI)
qed


theorem init_registers_witness:
  "active fresh_proxy initial_registry = [] \<and>
   active fresh_proxy (snd (init (Some ''/data/out'') disk_methods initial_registry)) =
     [disk_backend] \<and>
   call fresh_proxy (snd (init (Some ''/data/out'') disk_methods initial_registry)) ''ls'' ''/'' [] =
     (Inr (PList [''/a.txt'', ''/b.txt'']), [''disk /data/out/'']) \<and>
   snd (init None Map.empty (initial_registry :: string list registry)) = initial_registry"
  using init_registers [of "''/data/out''" disk_methods initial_registry]
    init_registers [of "''/data/out''" Map.empty "initial_registry :: string list registry"]
  by (simp add: init_prefix init_master fresh_proxy_def initial_registry_def active_def
      get_systems_def disk_backend_def call_def backend_def attempt_def disk_methods_def
      recording_def lfn2pfn_def os_path_join_def endswith_def pfn2lfn_def)

section \<open>The scoped default override\<close>

lemma default_scope_eq:
  "default_scope self body st w =
     (case body (self\<lparr>se_systems := Some (cls_defaults st)\<rparr>) st w of
        (r, self2, st2, w2) \<Rightarrow> (r, self2\<lparr>se_systems := Some (get_systems self st)\<rparr>, st2, w2))"
  by (simp add: default_scope_def get_defaults_def Let_def)

text \<open>
  Claim C5. Inside the scope the instance iterates over the list that \<open>_defaults\<close>
  names, the snapshot that \<open>store\<close> took. When the scope is left, with the value of the
  block or with the exception it raised (\<open>r\<close> is either), \<open>self._systems\<close> names the list
  object it named before the scope was entered, so the instance iterates over that list
  as the block left it: over the same backends as before, if the block did not change
  that list.
\<close>

theorem default_scope_restores:
  "default_scope self body st w = (r, self', st', w') \<Longrightarrow>
     active (self\<lparr>se_systems := Some (cls_defaults st)\<rparr>) st = lists st (cls_defaults st) \<and>
     (\<exists>self2. body (self\<lparr>se_systems := Some (cls_defaults st)\<rparr>) st w = (r, self2, st', w')) \<and>
     get_systems self' st' = get_systems self st \<and>
     active self' st' = lists st' (get_systems self st) \<and>
     (lists st' (get_systems self st) = lists st (get_systems self st) \<longrightarrow>
        active self' st' = active self st)"
proof -
  assume d: "default_scope self body st w = (r, self', st', w')"
  obtain r2 self2 st2 w2 where
    b: "body (self\<lparr>se_systems := Some (cls_defaults st)\<rparr>) st w = (r2, self2, st2, w2)"
    by (metis prod_cases4)
  from d b have eqs: "r = r2" "self' = self2\<lparr>se_systems := Some (get_systems self st)\<rparr>"
    "st' = st2" "w' = w2"
    by (simp_all add: default_scope_eq)
  have 1: "active (self\<lparr>se_systems := Some (cls_defaults st)\<rparr>) st = lists st (cls_defaults st)"
    by (simp add: active_def get_systems_def)
  have 2: "\<exists>self2. body (self\<lparr>se_systems := Some (cls_defaults st)\<rparr>) st w = (r, self2, st', w')"
    using b eqs by simp
  have 3: "get_systems self' st' = get_systems self st"
    using eqs(2) by (simp add: get_systems_def)
  have 4: "active self' st' = lists st' (get_systems self st)"
    using 3 by (simp add: active_def)
  have 5: "lists st' (get_systems self st) = lists st (get_systems self st) \<longrightarrow>
      active self' st' = active self st"
    using 4 by (simp add: active_def)
  show ?thesis using 1 2 3 4 5 by blast
qed

lemma activate_example:
  "activated =
     \<lparr>cls_defaults = 3, cls_systems = 4,
      lists = (\<lambda>r. [])
        (2 := [backend ''/data/in/'' (methods_of plain_environment ''Local'' [] ''/data/in/'')],
         3 := [backend ''/data/in/'' (methods_of plain_environment ''Local'' [] ''/data/in/'')],
         4 := [backend ''/data/out/'' (methods_of plain_environment ''Local'' [] ''/data/out/'')]),
      fresh = 5\<rparr>"
  by (simp add: activated_def activate_def example_configuration_def initial_registry_def
      reset_def store_def init_prefix url_re_match_def is_lower_def lower_chars_def
      not_slash_def not_newline_def newline_def at_dollar_def fun_upd_twist)

lemma fresh_proxy_eq:
  "fresh_proxy = \<lparr>se_master = True, se_pfnprefix = None, se_systems = None, se_attrs = Map.empty\<rparr>"
  by (simp add: fresh_proxy_def init_master)

lemma asking_in_scope:
  "default_scope fresh_proxy asking activated [] =
     (Inr (PBool True), fresh_proxy\<lparr>se_systems := Some 4\<rparr>, activated, [''Local /data/in/a.txt''])"
  by (simp add: default_scope_eq asking_def call_def active_def get_systems_def
      activate_example fresh_proxy_eq backend_def attempt_def plain_environment_def
      recording_def lfn2pfn_def os_path_join_def endswith_def)

lemma raising_in_scope:
  "default_scope fresh_proxy raising activated [] =
     (Inl (IOError ''disk full''), fresh_proxy\<lparr>se_systems := Some 4\<rparr>, activated, [])"
  by (simp add: default_scope_eq raising_def get_systems_def activate_example fresh_proxy_eq)

theorem default_scope_restores_witness:
  "active fresh_proxy activated =
     [backend ''/data/out/'' (methods_of plain_environment ''Local'' [] ''/data/out/'')] \<and>
   default_scope fresh_proxy asking activated [] =
     (Inr (PBool True), fresh_proxy\<lparr>se_systems := Some 4\<rparr>, activated, [''Local /data/in/a.txt'']) \<and>
   active (fresh_proxy\<lparr>se_systems := Some 4\<rparr>) activated = active fresh_proxy activated \<and>
   default_scope fresh_proxy raising activated [] =
     (Inl (IOError ''disk full''), fresh_proxy\<lparr>se_systems := Some 4\<rparr>, activated, [])"
  using default_scope_restores [OF asking_in_scope] default_scope_restores [OF raising_in_scope]
    asking_in_scope raising_in_scope
  by (simp add: active_def get_systems_def activate_example fresh_proxy_eq)

section \<open>Task parameters\<close>

text \<open>
  Claim C6. With both shuffle flags off, \<open>preprocess\<close> leaves the two URL lists and the
  generator as they are; \<open>parameters['input']\<close> is the output list for a merge and the
  input list otherwise, \<open>parameters['output']\<close> is the output list, and
  \<open>parameters['disable streaming']\<close> is set, to the flag of the configuration. The other
  keys keep their values.
\<close>

theorem preprocess_unshuffled:
  "\<not> sc_shuffle_inputs self \<Longrightarrow> \<not> sc_shuffle_outputs self \<Longrightarrow>
     (case preprocess shuffle self parameters merge g of
        (self', parameters', g') \<Rightarrow>
          self' = self \<and> g' = g \<and>
          parameters' ''input'' = Some (PList (if merge then sc_output self else sc_input self)) \<and>
          parameters' ''output'' = Some (PList (sc_output self)) \<and>
          parameters' ''disable streaming'' = Some (PBool (sc_no_streaming self)) \<and>
          (\<forall>k. k \<notin> {''input'', ''output'', ''disable streaming''} \<longrightarrow>
             parameters' k = parameters k))"
  by (simp add: preprocess_def)

theorem preprocess_unshuffled_witness:
  "\<not> sc_shuffle_inputs example_configuration \<and> \<not> sc_shuffle_outputs example_configuration \<and>
   preprocess reversing example_configuration [''cmd'' \<mapsto> PStr ''run''] False (0::nat) =
     (example_configuration,
      [''cmd'' \<mapsto> PStr ''run'', ''input'' \<mapsto> PList [''file:///data/in/''],
       ''output'' \<mapsto> PList [''file:///data/out/''], ''disable streaming'' \<mapsto> PBool True], 0) \<and>
   preprocess reversing example_configuration [''cmd'' \<mapsto> PStr ''run''] True (0::nat) =
     (example_configuration,
      [''cmd'' \<mapsto> PStr ''run'', ''input'' \<mapsto> PList [''file:///data/out/''],
       ''output'' \<mapsto> PList [''file:///data/out/''], ''disable streaming'' \<mapsto> PBool True], 0)"
  using preprocess_unshuffled [where self = example_configuration and shuffle = reversing
      and parameters = "[''cmd'' \<mapsto> PStr ''run'']" and merge = False and g = "0::nat"]
    preprocess_unshuffled [where self = example_configuration and shuffle = reversing
      and parameters = "[''cmd'' \<mapsto> PStr ''run'']" and merge = True and g = "0::nat"]
  by (simp add: preprocess_def example_configuration_def)

section \<open>Local access\<close>

lemma local_scan_passes:
  "list_all (passed_over isfile filename) pre \<Longrightarrow>
     local_scan isfile (pre @ rest) filename = local_scan isfile rest filename"
proof (induction pre)
  case Nil
  then show ?case by simp
next
  case (Cons url pre)
  then have p: "passed_over isfile filename url" and ih: "local_scan isfile (pre @ rest) filename = local_scan isfile rest filename"
    by simp_all
  from p obtain protocol server path where
    m: "url_re_match url = Some (protocol, server, path)"
    and c: "protocol \<noteq> ''file'' \<or> \<not> isfile (os_path_join path filename)"
    by (auto simp: passed_over_def split: option.splits)
  show ?case
    using m c ih by (auto simp: Let_def)
qed

lemma local_scan_hit:
  "url_re_match url = Some (''file'', server, path) \<Longrightarrow> isfile (os_path_join path filename) \<Longrightarrow>
     local_scan isfile (url # post) filename = Inr (os_path_join path filename)"
  by (simp add: Let_def)

text \<open>
  Claim C7, as the code has it. The loop of \<open>local\<close> goes through the input URLs and
  then the output URLs and passes over a URL of another protocol and a local URL under
  which the file does not exist. It returns the joined path at the first local URL under
  which the file exists, and raises the \<open>IOError\<close> when it has passed over every URL.
\<close>

theorem local_first_existing:
  "(sc_input self @ sc_output self = pre @ url # post \<and>
    list_all (passed_over isfile filename) pre \<and>
    url_re_match url = Some (''file'', server, path) \<and> isfile (os_path_join path filename) \<longrightarrow>
      local_path isfile self filename = Inr (os_path_join path filename)) \<and>
   (list_all (passed_over isfile filename) (sc_input self @ sc_output self) \<longrightarrow>
      local_path isfile self filename = Inl no_local_access)"
proof (intro conjI impI)
  assume a: "sc_input self @ sc_output self = pre @ url # post \<and>
    list_all (passed_over isfile filename) pre \<and>
    url_re_match url = Some (''file'', server, path) \<and> isfile (os_path_join path filename)"
  then have "local_scan isfile (pre @ url # post) filename = local_scan isfile (url # post) filename"
    using local_scan_passes by blast
  also have "\<dots> = Inr (os_path_join path filename)"
    using a local_scan_hit by blast
  finally show "local_path isfile self filename = Inr (os_path_join path filename)"
    using a by (simp add: local_path_def)
next
  assume "list_all (passed_over isfile filename) (sc_input self @ sc_output self)"
  then have "local_scan isfile ((sc_input self @ sc_output self) @ []) filename =
      local_scan isfile [] filename"
    by (rule local_scan_passes)
  then show "local_path isfile self filename = Inl no_local_access"
    by (simp add: local_path_def)
qed

lemma url_re_match_a: "url_re_match ''file:///a/'' = Some (''file'', [], ''/a/'')"
  by (simp add: url_re_match_def is_lower_def lower_chars_def not_slash_def not_newline_def
      newline_def at_dollar_def)

lemma url_re_match_b: "url_re_match ''file:///b/'' = Some (''file'', [], ''/b/'')"
  by (simp add: url_re_match_def is_lower_def lower_chars_def not_slash_def not_newline_def
      newline_def at_dollar_def)

theorem local_first_existing_witness:
  "local_path only_on_b two_disks ''x.root'' = Inr ''/b/x.root'' \<and>
   local_path only_on_b two_disks ''y.root'' = Inl no_local_access"
proof -
  have io: "sc_input two_disks @ sc_output two_disks = [''file:///a/''] @ ''file:///b/'' # []"
    by (simp add: two_disks_def)
  have pre: "list_all (passed_over only_on_b ''x.root'') [''file:///a/'']"
    by (simp add: passed_over_def url_re_match_a only_on_b_def os_path_join_def endswith_def)
  have hit: "only_on_b (os_path_join ''/b/'' ''x.root'')"
    by (simp add: only_on_b_def os_path_join_def endswith_def)
  have all: "list_all (passed_over only_on_b ''y.root'') (sc_input two_disks @ sc_output two_disks)"
    by (simp add: two_disks_def passed_over_def url_re_match_a url_re_match_b only_on_b_def
        os_path_join_def endswith_def)
  have j: "os_path_join ''/b/'' ''x.root'' = ''/b/x.root''"
    by (simp add: os_path_join_def endswith_def)
  show ?thesis
    using local_first_existing [where self = two_disks and pre = "[''file:///a/'']"
        and url = "''file:///b/''" and post = "[]" and isfile = only_on_b
        and filename = "''x.root''" and server = "[]" and path = "''/b/''"]
      local_first_existing [where self = two_disks and pre = "[]" and url = "[]" and post = "[]"
        and isfile = only_on_b and filename = "''y.root''" and server = "[]" and path = "[]"]
      io pre hit all url_re_match_b j
    by simp
qed

text \<open>
  Claim C7 as it is stated takes the first URL of the local protocol and fails when the
  file is not there. The code goes on: with a local input URL that does not hold the
  file and a local output URL that does, it returns the path under the output URL.
\<close>

theorem local_first_existing_counterexample:
  "local_path only_on_b two_disks ''x.root'' = Inr ''/b/x.root'' \<and>
   local_spec only_on_b two_disks ''x.root'' = Inl no_local_access"
  by (simp add: local_path_def local_spec_def two_disks_def is_file_url_def url_re_match_a
      url_re_match_b only_on_b_def os_path_join_def endswith_def)

section \<open>The grid broker\<close>

lemma split_del: "split ''del'' = [''del'']"
  by (simp add: split_def is_space_def)

text \<open>
  Claim C8. When the client started by \<open>remove\<close> exits with a status other than 0,
  \<open>remove\<close> returns \<open>None\<close> and raises nothing, because it passes \<open>safe=True\<close>. The same
  exit status in a call of \<open>execute\<close> without \<open>safe\<close> raises the \<open>IOError\<close> that carries
  the command line and the output of the client.
\<close>

theorem SRM_remove_tolerates_failure:
  "(popen (lcg_args ''del'' [] path) w = (Inr p, w') \<and> returncode p \<noteq> 0 \<longrightarrow>
      SRM_remove popen path w = (Inr PNone, w')) \<and>
   (split cmd = c0 # cs \<and> popen (lcg_args c0 cs path) w = (Inr p, w') \<and> returncode p \<noteq> 0 \<longrightarrow>
      SRM_execute popen cmd path False w = (Inl (failed_to_execute (lcg_args c0 cs path) p), w') \<and>
      SRM_execute popen cmd path True w = (Inr (stdout p), w'))"
  by (simp add: SRM_remove_def SRM_execute_def split_del Let_def)

theorem SRM_remove_tolerates_failure_witness:
  "failing_client (lcg_args ''del'' [] ''srm://se.example.org/d?SFN=/d/f'') () =
     (Inr \<lparr>returncode = 1, stdout = ''out'', stderr = ''no such file''\<rparr>, ()) \<and>
   SRM_remove failing_client ''srm://se.example.org/d?SFN=/d/f'' () = (Inr PNone, ()) \<and>
   SRM_execute failing_client ''del'' ''srm://se.example.org/d?SFN=/d/f'' False () =
     (Inl (failed_to_execute
        [''lcg-del'', ''-b'', ''-D'', ''srmv2'', ''srm://se.example.org/d?SFN=/d/f'']
        \<lparr>returncode = 1, stdout = ''out'', stderr = ''no such file''\<rparr>), ())"
  using SRM_remove_tolerates_failure [where popen = failing_client
      and path = "''srm://se.example.org/d?SFN=/d/f''" and w = "()" and w' = "()"
      and p = "\<lparr>returncode = 1, stdout = ''out'', stderr = ''no such file''\<rparr>"
      and cmd = "''del''" and ?c0.0 = "''del''" and cs = "[]"]
  by (simp add: failing_client_def split_del lcg_args_def)

section \<open>The Chirp backend\<close>



end
